theory Spec2Isabelle
  imports Complex_Main "HOL-Library.Word" "HOL-Library.Signed_Division"
begin

unbundle bit_operations_syntax

section \<open>Display hibernation controller (exynos\_drm\_hibernation.c)\<close>

text \<open>
  The development embeds \<^verbatim>\<open>src/samsung/exynos_drm_hibernation.c\<close>. One thread
  of control is modelled: a function takes the controller and returns it updated. Every
  call into another subsystem is appended to the controller's \<open>calls\<close> log, a ghost
  field that the C structure does not have, so that the order of the calls can be stated.
  The \<^verbatim>\<open>pr_debug\<close>, \<^verbatim>\<open>DPU_ATRACE\<close> and \<^verbatim>\<open>DPU_EVENT_LOG\<close> lines
  only print or trace and are left out.
\<close>

subsection \<open>Data\<close>

text \<open>A writeback or display-link device is an opaque pointer.\<close>

type_synonym handle = nat

text \<open>
  Modelled from the spec: \<^verbatim>\<open>enum decon_state\<close> is declared in
  \<^verbatim>\<open>exynos_drm_decon.h\<close>, which is not among the sources. The spec (4.3) has the
  states ACTIVE and HIBERNATING, which the file names \<^verbatim>\<open>DECON_STATE_ON\<close> and
  \<^verbatim>\<open>DECON_STATE_HIBERNATION\<close>; \<open>DECON_STATE_OTHER\<close> stands for every other
  member, which the file only ever sees through \<^verbatim>\<open>!=\<close>.
\<close>

datatype decon_state = DECON_STATE_ON | DECON_STATE_HIBERNATION | DECON_STATE_OTHER

text \<open>
  Modelled from the spec: \<^verbatim>\<open>struct decon_device\<close> is declared in
  \<^verbatim>\<open>exynos_drm_decon.h\<close>, which is not among the sources. The record has what the
  file reads of it and what the spec (6) says the pipeline provides: the state flag,
  the refresh rate \<^verbatim>\<open>bts.fps\<close> (32 bits; the file converts it to \<^verbatim>\<open>int\<close>), the
  attached writeback and display link that \<^verbatim>\<open>decon_get_wb\<close> and
  \<^verbatim>\<open>decon_get_dsim\<close> return, and the runtime-PM usage count of \<^verbatim>\<open>decon->dev\<close>.
\<close>

record decon_device =
  state :: decon_state
  bts_fps :: "32 word"
  attached_wb :: "handle option"
  attached_dsim :: "handle option"
  pm_usage :: int

text \<open>Every call the file makes that leaves it, in the order the log keeps them.\<close>

datatype call =
    MUTEX_LOCK
  | MUTEX_UNLOCK
  | HIBERNATION_BLOCK
  | HIBERNATION_UNBLOCK
  | KTHREAD_CANCEL_WORK_SYNC
  | WRITEBACK_ENTER_HIBERNATION handle
  | DECON_ENTER_HIBERNATION
  | DSIM_ENTER_ULPS handle
  | RELEASE_BW
  | PM_RUNTIME_PUT_SYNC
  | PM_RUNTIME_GET_SYNC
  | DSIM_EXIT_ULPS handle
  | DECON_EXIT_HIBERNATION
  | WRITEBACK_EXIT_HIBERNATION handle

text \<open>The one function table of the file, \<^verbatim>\<open>hibernation_funcs\<close>.\<close>

datatype exynos_hibernation_funcs = hibernation_funcs

text \<open>
  \<^verbatim>\<open>struct exynos_hibernation\<close>, with the members the file uses (the declaration is
  in \<^verbatim>\<open>exynos_drm_hibernation.h\<close>, which is not among the sources) and the log.
  A pointer that may be \<^verbatim>\<open>NULL\<close> is an option. \<open>decon\<close> holds the pipeline it
  points to; \<open>cam_op_reg\<close> holds the word that \<^verbatim>\<open>readl\<close> finds in the mapped
  register; \<open>lock\<close> says whether the mutex is held; \<open>work\<close> says whether the entry
  work is queued.
\<close>

record exynos_hibernation =
  decon :: "decon_device option"
  funcs :: "exynos_hibernation_funcs option"
  trig_cnt :: "32 word"
  block_cnt :: "32 word"
  cam_op_reg :: "32 word option"
  wb :: "handle option"
  dsim :: "handle option"
  lock :: bool
  work :: bool
  calls :: "call list"

subsection \<open>Constants\<close>

definition HIBERNATION_ENTRY_DEFAULT_FPS :: "32 word" where
  "HIBERNATION_ENTRY_DEFAULT_FPS = 60"

definition HIBERNATION_ENTRY_MIN_TIME_MS :: "32 word" where
  "HIBERNATION_ENTRY_MIN_TIME_MS = 50"

definition HIBERNATION_ENTRY_MIN_ENTRY_CNT :: "32 word" where
  "HIBERNATION_ENTRY_MIN_ENTRY_CNT = 1"

definition CAMERA_OPERATION_MASK :: "32 word" where
  "CAMERA_OPERATION_MASK = 0xF"

text \<open>The kernel's \<^verbatim>\<open>MSEC_PER_SEC\<close> is \<^verbatim>\<open>1000L\<close>, a 64-bit \<^verbatim>\<open>long\<close>.\<close>

definition MSEC_PER_SEC :: int where
  "MSEC_PER_SEC = 1000"

definition ENODEV :: int where
  "ENODEV = 19"

definition EBUSY :: int where
  "EBUSY = 16"

subsection \<open>Kernel primitives\<close>

definition log_call :: "call \<Rightarrow> exynos_hibernation \<Rightarrow> exynos_hibernation" where
  "log_call c h = h\<lparr>calls := calls h @ [c]\<rparr>"

text \<open>Reads and writes through the pointer \<^verbatim>\<open>hiber->decon\<close>.\<close>

definition decon_state_of :: "exynos_hibernation \<Rightarrow> decon_state option" where
  "decon_state_of h = map_option state (decon h)"

definition pm_usage_of :: "exynos_hibernation \<Rightarrow> int option" where
  "pm_usage_of h = map_option pm_usage (decon h)"

definition map_decon ::
  "(decon_device \<Rightarrow> decon_device) \<Rightarrow> exynos_hibernation \<Rightarrow> exynos_hibernation" where
  "map_decon f h = h\<lparr>decon := map_option f (decon h)\<rparr>"

text \<open>
  \<^verbatim>\<open>atomic_t\<close> is a 32-bit counter that wraps. \<^verbatim>\<open>atomic_dec_and_test\<close> decrements
  and says whether the new value is zero.
\<close>

definition atomic_inc :: "32 word \<Rightarrow> 32 word" where
  "atomic_inc v = v + 1"

definition atomic_dec :: "32 word \<Rightarrow> 32 word" where
  "atomic_dec v = v - 1"

definition atomic_dec_and_test :: "32 word \<Rightarrow> bool \<times> 32 word" where
  "atomic_dec_and_test v = (v - 1 = 0, v - 1)"

text \<open>
  A mutex that is already held never comes free while a single thread runs: the call does
  not return, which is \<open>None\<close>.
\<close>

definition mutex_lock :: "exynos_hibernation \<Rightarrow> exynos_hibernation option" where
  "mutex_lock h = (if lock h then None else Some (log_call MUTEX_LOCK (h\<lparr>lock := True\<rparr>)))"

definition mutex_unlock :: "exynos_hibernation \<Rightarrow> exynos_hibernation" where
  "mutex_unlock h = log_call MUTEX_UNLOCK (h\<lparr>lock := False\<rparr>)"

text \<open>Queued work is taken off the queue; no work is running while this thread runs.\<close>

definition kthread_cancel_work_sync :: "exynos_hibernation \<Rightarrow> exynos_hibernation" where
  "kthread_cancel_work_sync h = log_call KTHREAD_CANCEL_WORK_SYNC (h\<lparr>work := False\<rparr>)"

text \<open>\<^verbatim>\<open>DIV_ROUND_UP(n, d)\<close> is \<^verbatim>\<open>((n) + (d) - 1) / (d)\<close>; C division truncates.\<close>

definition DIV_ROUND_UP :: "int \<Rightarrow> int \<Rightarrow> int" where
  "DIV_ROUND_UP n d = (n + d - 1) sdiv d"

subsection \<open>The veto count (exynos\_drm\_hibernation.h)\<close>

text \<open>
  Modelled from the spec: \<^verbatim>\<open>hibernation_block\<close> is an inline function of
  \<^verbatim>\<open>exynos_drm_hibernation.h\<close>, which is not among the sources. The spec (4.2):
  "\<^verbatim>\<open>block()\<close> increments the veto count (no return value, infallible)".
\<close>

definition hibernation_block :: "exynos_hibernation \<Rightarrow> exynos_hibernation" where
  "hibernation_block h = log_call HIBERNATION_BLOCK (h\<lparr>block_cnt := atomic_inc (block_cnt h)\<rparr>)"

text \<open>
  Modelled from the spec: \<^verbatim>\<open>hibernation_unblock\<close> is an inline function of the same
  absent header. The spec (4.2): "\<^verbatim>\<open>unblock()\<close> decrements it".
\<close>

definition hibernation_unblock :: "exynos_hibernation \<Rightarrow> exynos_hibernation" where
  "hibernation_unblock h =
     log_call HIBERNATION_UNBLOCK (h\<lparr>block_cnt := atomic_dec (block_cnt h)\<rparr>)"

text \<open>
  Modelled from the spec: \<^verbatim>\<open>is_hibernaton_blocked\<close> is an inline function of the same
  absent header. The spec (4.2): "Eligibility predicate is \<^verbatim>\<open>block_count == 0\<close>".
\<close>

definition is_hibernaton_blocked :: "exynos_hibernation \<Rightarrow> bool" where
  "is_hibernaton_blocked h = (block_cnt h \<noteq> 0)"

subsection \<open>The dependent subsystems\<close>

text \<open>
  Modelled from the spec: \<^verbatim>\<open>decon_get_wb\<close> is a function of the pipeline driver, which
  is not among the sources. The spec (6): an accessor for the currently attached writeback
  sub-object.
\<close>

definition decon_get_wb :: "exynos_hibernation \<Rightarrow> handle option" where
  "decon_get_wb h = Option.bind (decon h) attached_wb"

text \<open>
  Modelled from the spec: \<^verbatim>\<open>decon_get_dsim\<close> is a function of the pipeline driver, which
  is not among the sources. The spec (6): an accessor for the currently attached
  display-link sub-object.
\<close>

definition decon_get_dsim :: "exynos_hibernation \<Rightarrow> handle option" where
  "decon_get_dsim h = Option.bind (decon h) attached_dsim"

text \<open>
  Modelled from the spec: \<^verbatim>\<open>writeback_enter_hibernation\<close> belongs to the writeback
  driver, which is not among the sources. The spec (4.3): a notification; this controller
  sees no effect of it.
\<close>

definition writeback_enter_hibernation ::
  "handle \<Rightarrow> exynos_hibernation \<Rightarrow> exynos_hibernation" where
  "writeback_enter_hibernation w h = log_call (WRITEBACK_ENTER_HIBERNATION w) h"

text \<open>
  Modelled from the spec: \<^verbatim>\<open>writeback_exit_hibernation\<close> belongs to the writeback
  driver, which is not among the sources. The spec (4.3): a notification; this controller
  sees no effect of it.
\<close>

definition writeback_exit_hibernation ::
  "handle \<Rightarrow> exynos_hibernation \<Rightarrow> exynos_hibernation" where
  "writeback_exit_hibernation w h = log_call (WRITEBACK_EXIT_HIBERNATION w) h"

text \<open>
  Modelled from the spec: \<^verbatim>\<open>decon_enter_hibernation\<close> belongs to the pipeline driver,
  which is not among the sources. The spec (4.3): "notify pipeline to enter hibernation
  (pipeline-internal state flag flips here)".
\<close>

definition decon_enter_hibernation :: "exynos_hibernation \<Rightarrow> exynos_hibernation" where
  "decon_enter_hibernation h =
     log_call DECON_ENTER_HIBERNATION (map_decon (\<lambda>d. d\<lparr>state := DECON_STATE_HIBERNATION\<rparr>) h)"

text \<open>
  Modelled from the spec: \<^verbatim>\<open>decon_exit_hibernation\<close> belongs to the pipeline driver,
  which is not among the sources. The spec (4.3, 8): "notify the pipeline to exit
  hibernation"; "after the paired \<^verbatim>\<open>exit\<close>, pipeline state reads ACTIVE".
\<close>

definition decon_exit_hibernation :: "exynos_hibernation \<Rightarrow> exynos_hibernation" where
  "decon_exit_hibernation h =
     log_call DECON_EXIT_HIBERNATION (map_decon (\<lambda>d. d\<lparr>state := DECON_STATE_ON\<rparr>) h)"

text \<open>
  Modelled from the spec: \<^verbatim>\<open>dsim_enter_ulps\<close> belongs to the display-link driver, which
  is not among the sources. The spec (4.3): a notification; this controller sees no effect
  of it.
\<close>

definition dsim_enter_ulps :: "handle \<Rightarrow> exynos_hibernation \<Rightarrow> exynos_hibernation" where
  "dsim_enter_ulps l h = log_call (DSIM_ENTER_ULPS l) h"

text \<open>
  Modelled from the spec: \<^verbatim>\<open>dsim_exit_ulps\<close> belongs to the display-link driver, which
  is not among the sources. The spec (4.3): a notification; this controller sees no effect
  of it.
\<close>

definition dsim_exit_ulps :: "handle \<Rightarrow> exynos_hibernation \<Rightarrow> exynos_hibernation" where
  "dsim_exit_ulps l h = log_call (DSIM_EXIT_ULPS l) h"

text \<open>
  Modelled from the spec: \<^verbatim>\<open>decon->bts.ops->release_bw\<close> belongs to the bandwidth
  controller, which is not among the sources. The spec (4.3): "release any
  bandwidth/clock reservation held for this pipeline"; this controller sees no effect of it.
\<close>

definition release_bw :: "exynos_hibernation \<Rightarrow> exynos_hibernation" where
  "release_bw h = log_call RELEASE_BW h"

text \<open>
  The kernel's runtime power management: \<^verbatim>\<open>pm_runtime_put_sync\<close> drops one reference
  on the device, \<^verbatim>\<open>pm_runtime_get_sync\<close> takes one.
\<close>

definition pm_runtime_put_sync :: "exynos_hibernation \<Rightarrow> exynos_hibernation" where
  "pm_runtime_put_sync h =
     log_call PM_RUNTIME_PUT_SYNC (map_decon (\<lambda>d. d\<lparr>pm_usage := pm_usage d - 1\<rparr>) h)"

definition pm_runtime_get_sync :: "exynos_hibernation \<Rightarrow> exynos_hibernation" where
  "pm_runtime_get_sync h =
     log_call PM_RUNTIME_GET_SYNC (map_decon (\<lambda>d. d\<lparr>pm_usage := pm_usage d + 1\<rparr>) h)"

subsection \<open>The functions of the file\<close>

text \<open>Lines 35 to 42.\<close>

definition is_camera_operating :: "exynos_hibernation \<Rightarrow> bool" where
  "is_camera_operating hiber =
     (case cam_op_reg hiber of
        None \<Rightarrow> False
      | Some v \<Rightarrow> v AND CAMERA_OPERATION_MASK \<noteq> 0)"

text \<open>
  Lines 47 to 51: the count that \<^verbatim>\<open>exynos_hibernation_trig_reset\<close> stores, from the
  value of \<^verbatim>\<open>decon->bts.fps\<close>. \<^verbatim>\<open>fps * HIBERNATION_ENTRY_MIN_TIME_MS\<close> is a product
  of two \<^verbatim>\<open>int\<close>s and wraps at 32 bits (the kernel is built with
  \<^verbatim>\<open>-fno-strict-overflow\<close>); the sum and the quotient are \<^verbatim>\<open>long\<close>; the
  result is cut to \<^verbatim>\<open>int\<close> again and compared as a signed number.
\<close>

definition trig_reset_entry_cnt :: "32 word \<Rightarrow> 32 word" where
  "trig_reset_entry_cnt bts_fps_val =
     (let fps = (if bts_fps_val \<noteq> 0 then bts_fps_val else HIBERNATION_ENTRY_DEFAULT_FPS);
          entry_cnt = (word_of_int
            (DIV_ROUND_UP (sint (fps * HIBERNATION_ENTRY_MIN_TIME_MS)) MSEC_PER_SEC) :: 32 word)
      in if entry_cnt <s HIBERNATION_ENTRY_MIN_ENTRY_CNT
         then HIBERNATION_ENTRY_MIN_ENTRY_CNT else entry_cnt)"

text \<open>
  Lines 44 to 54. \<^verbatim>\<open>decon->bts\<close> dereferences \<^verbatim>\<open>hiber->decon\<close>: on a
  \<^verbatim>\<open>NULL\<close> pipeline the kernel faults, which is \<open>None\<close>.
\<close>

definition exynos_hibernation_trig_reset :: "exynos_hibernation \<Rightarrow> exynos_hibernation option" where
  "exynos_hibernation_trig_reset hiber =
     (case decon hiber of
        None \<Rightarrow> None
      | Some d \<Rightarrow> Some (hiber\<lparr>trig_cnt := trig_reset_entry_cnt (bts_fps d)\<rparr>))"

text \<open>
  Lines 56 to 63. C's \<^verbatim>\<open>&&\<close> evaluates its right operand only when the left one is
  true, so \<^verbatim>\<open>atomic_dec_and_test\<close> runs only after both other tests have passed.
\<close>

definition exynos_hibernation_check :: "exynos_hibernation \<Rightarrow> bool \<times> exynos_hibernation" where
  "exynos_hibernation_check hiber =
     (if is_hibernaton_blocked hiber then (False, hiber)
      else if is_camera_operating hiber then (False, hiber)
      else (let (z, v) = atomic_dec_and_test (trig_cnt hiber)
            in (z, hiber\<lparr>trig_cnt := v\<rparr>)))"

text \<open>Lines 65 to 106.\<close>

definition exynos_hibernation_enter :: "exynos_hibernation \<Rightarrow> exynos_hibernation option" where
  "exynos_hibernation_enter hiber =
     (case decon hiber of
        None \<Rightarrow> Some hiber
      | Some _ \<Rightarrow>
          (case mutex_lock hiber of
             None \<Rightarrow> None
           | Some h1 \<Rightarrow>
               (let h2 = hibernation_block h1;
                    h9 =
                      (if decon_state_of h2 \<noteq> Some DECON_STATE_ON then h2
                       else
                         (let h3 = h2\<lparr>wb := decon_get_wb h2\<rparr>;
                              h4 = (case wb h3 of
                                      Some w \<Rightarrow> writeback_enter_hibernation w h3
                                    | None \<Rightarrow> h3);
                              h5 = decon_enter_hibernation h4;
                              h6 = h5\<lparr>dsim := decon_get_dsim h5\<rparr>;
                              h7 = (case dsim h6 of
                                      Some l \<Rightarrow> dsim_enter_ulps l h6
                                    | None \<Rightarrow> h6);
                              h8 = release_bw h7
                          in pm_runtime_put_sync h8))
                in Some (mutex_unlock (hibernation_unblock h9)))))"

text \<open>
  Lines 108 to 163. The result is the C return value: \<open>0\<close>, \<open>- EBUSY\<close> or
  \<open>- ENODEV\<close>.
\<close>

definition exynos_hibernation_exit ::
  "exynos_hibernation \<Rightarrow> (int \<times> exynos_hibernation) option" where
  "exynos_hibernation_exit hiber =
     (case decon hiber of
        None \<Rightarrow> Some (- ENODEV, hiber)
      | Some _ \<Rightarrow>
          (let h1 = hibernation_block hiber;
               h2 = kthread_cancel_work_sync h1
           in case mutex_lock h2 of
                None \<Rightarrow> None
              | Some h3 \<Rightarrow>
                  (case exynos_hibernation_trig_reset h3 of
                     None \<Rightarrow> None
                   | Some h4 \<Rightarrow>
                       (let (ret, h9) =
                              (if decon_state_of h4 \<noteq> Some DECON_STATE_HIBERNATION
                               then (- EBUSY, h4)
                               else
                                 (let h5 = pm_runtime_get_sync h4;
                                      h6 = (case dsim h5 of
                                              Some l \<Rightarrow> (dsim_exit_ulps l h5)\<lparr>dsim := None\<rparr>
                                            | None \<Rightarrow> h5);
                                      h7 = decon_exit_hibernation h6;
                                      h8 = (case wb h7 of
                                              Some w \<Rightarrow>
                                                (writeback_exit_hibernation w h7)\<lparr>wb := None\<rparr>
                                            | None \<Rightarrow> h7)
                                  in (0, h8)))
                        in Some (ret, hibernation_unblock (mutex_unlock h9))))))"

text \<open>The \<^verbatim>\<open>.exit\<close> member of a function table.\<close>

fun funcs_exit ::
  "exynos_hibernation_funcs \<Rightarrow> exynos_hibernation \<Rightarrow> (int \<times> exynos_hibernation) option" where
  "funcs_exit hibernation_funcs = exynos_hibernation_exit"

text \<open>
  Lines 165 to 177. The argument is the pointer \<^verbatim>\<open>hiber\<close>; the result holds the
  boolean and the controller behind the pointer, if there is one.
\<close>

definition hibernation_block_exit ::
  "exynos_hibernation option \<Rightarrow> (bool \<times> exynos_hibernation option) option" where
  "hibernation_block_exit p =
     (case p of
        None \<Rightarrow> Some (False, None)
      | Some hiber \<Rightarrow>
          (let h1 = hibernation_block hiber
           in case funcs h1 of
                None \<Rightarrow> Some (True, Some h1)
              | Some f \<Rightarrow>
                  (case funcs_exit f h1 of
                     None \<Rightarrow> None
                   | Some (r, h2) \<Rightarrow> Some (r = 0, Some h2))))"

text \<open>
  What \<^verbatim>\<open>of_get_child_by_name\<close> and \<^verbatim>\<open>of_iomap\<close> find for the node
  "camera-operation": no node, or a node whose register maps (to a register that reads as
  the given word) or fails to map.
\<close>

datatype camera_node = NO_CAMERA_NODE | CAMERA_NODE "32 word option"

text \<open>
  Lines 201 to 246. \<open>hibernation_prop\<close> is what \<^verbatim>\<open>of_property_read_bool\<close> returns,
  \<open>alloc_ok\<close> whether \<^verbatim>\<open>devm_kzalloc\<close> succeeds; the allocation is zeroed. A
  \<^verbatim>\<open>NULL\<close> result is \<open>None\<close>.
\<close>

definition exynos_hibernation_register ::
  "decon_device \<Rightarrow> bool \<Rightarrow> bool \<Rightarrow> camera_node \<Rightarrow> exynos_hibernation option" where
  "exynos_hibernation_register d hibernation_prop alloc_ok cam_np =
     (if \<not> hibernation_prop then None
      else if \<not> alloc_ok then None
      else
        (let hibernation = \<lparr>decon = None, funcs = None, trig_cnt = 0, block_cnt = 0,
                             cam_op_reg = None, wb = None, dsim = None, lock = False,
                             work = False, calls = []\<rparr>
         in case cam_np of
              CAMERA_NODE None \<Rightarrow> None
            | _ \<Rightarrow>
                (let h1 = hibernation\<lparr>cam_op_reg :=
                            (case cam_np of NO_CAMERA_NODE \<Rightarrow> None | CAMERA_NODE r \<Rightarrow> r)\<rparr>;
                     h2 = h1\<lparr>decon := Some d, funcs := Some hibernation_funcs\<rparr>
                 in case exynos_hibernation_trig_reset h2 of
                      None \<Rightarrow> None
                    | Some h3 \<Rightarrow> Some (h3\<lparr>block_cnt := 0\<rparr>))))"

subsection \<open>Runs\<close>

text \<open>The results of \<open>n\<close> calls of \<^verbatim>\<open>exynos_hibernation_check\<close> in a row.\<close>

fun checks :: "nat \<Rightarrow> exynos_hibernation \<Rightarrow> bool list \<times> exynos_hibernation" where
  "checks 0 h = ([], h)"
| "checks (Suc n) h =
     (let (b, h1) = exynos_hibernation_check h;
          (bs, h2) = checks n h1
      in (b # bs, h2))"

text \<open>\<open>n\<close> times: enter, then exit.\<close>

fun enter_exit_cycles :: "nat \<Rightarrow> exynos_hibernation \<Rightarrow> exynos_hibernation option" where
  "enter_exit_cycles 0 h = Some h"
| "enter_exit_cycles (Suc n) h =
     (case exynos_hibernation_enter h of
        None \<Rightarrow> None
      | Some h1 \<Rightarrow>
          (case exynos_hibernation_exit h1 of
             None \<Rightarrow> None
           | Some (r, h2) \<Rightarrow> enter_exit_cycles n h2))"

text \<open>
  The controllers that registration and the functions of the file and of its header can
  produce.
\<close>

inductive reachable :: "exynos_hibernation \<Rightarrow> bool" where
  registered: "exynos_hibernation_register d p a c = Some h \<Longrightarrow> reachable h"
| checked: "reachable h \<Longrightarrow> exynos_hibernation_check h = (b, h') \<Longrightarrow> reachable h'"
| entered: "reachable h \<Longrightarrow> exynos_hibernation_enter h = Some h' \<Longrightarrow> reachable h'"
| exited: "reachable h \<Longrightarrow> exynos_hibernation_exit h = Some (r, h') \<Longrightarrow> reachable h'"
| block_exited:
    "reachable h \<Longrightarrow> hibernation_block_exit (Some h) = Some (b, Some h') \<Longrightarrow> reachable h'"
| blocked: "reachable h \<Longrightarrow> reachable (hibernation_block h)"
| unblocked: "reachable h \<Longrightarrow> reachable (hibernation_unblock h)"

text \<open>A captured handle is present only while the pipeline is hibernating.\<close>

definition handles_only_while_hibernating :: "exynos_hibernation \<Rightarrow> bool" where
  "handles_only_while_hibernating h =
     (decon_state_of h = Some DECON_STATE_HIBERNATION \<or> (wb h = None \<and> dsim h = None))"

text \<open>
  The spec's formula for the stored count (4.1), in unbounded arithmetic, to compare with
  \<open>trig_reset_entry_cnt\<close>: \<^verbatim>\<open>ceil(fps * MIN_IDLE_MS / 1000)\<close>, at least 1, with
  \<^verbatim>\<open>fps\<close> 60 when the pipeline reports no rate.
\<close>

definition spec_entry_cnt :: "int \<Rightarrow> int" where
  "spec_entry_cnt rate =
     (let fps = (if rate = 0 then 60 else rate)
      in max 1 \<lceil>real_of_int (fps * 50) / 1000\<rceil>)"

text \<open>The calls of one enter sequence and of one exit sequence, for given handles.\<close>

definition enter_calls :: "handle option \<Rightarrow> handle option \<Rightarrow> call list" where
  "enter_calls w l =
     [MUTEX_LOCK, HIBERNATION_BLOCK]
     @ (case w of Some x \<Rightarrow> [WRITEBACK_ENTER_HIBERNATION x] | None \<Rightarrow> [])
     @ [DECON_ENTER_HIBERNATION]
     @ (case l of Some x \<Rightarrow> [DSIM_ENTER_ULPS x] | None \<Rightarrow> [])
     @ [RELEASE_BW, PM_RUNTIME_PUT_SYNC, HIBERNATION_UNBLOCK, MUTEX_UNLOCK]"

definition exit_calls :: "handle option \<Rightarrow> handle option \<Rightarrow> call list" where
  "exit_calls w l =
     [HIBERNATION_BLOCK, KTHREAD_CANCEL_WORK_SYNC, MUTEX_LOCK, PM_RUNTIME_GET_SYNC]
     @ (case l of Some x \<Rightarrow> [DSIM_EXIT_ULPS x] | None \<Rightarrow> [])
     @ [DECON_EXIT_HIBERNATION]
     @ (case w of Some x \<Rightarrow> [WRITEBACK_EXIT_HIBERNATION x] | None \<Rightarrow> [])
     @ [MUTEX_UNLOCK, HIBERNATION_UNBLOCK]"

subsection \<open>Sample controllers\<close>

text \<open>
  An active pipeline at 60 Hz with a writeback and a link attached, as registration leaves
  it, and the same pipeline hibernating.
\<close>

definition hiber_active :: exynos_hibernation where
  "hiber_active =
     \<lparr>decon = Some \<lparr>state = DECON_STATE_ON, bts_fps = 60, attached_wb = Some 1,
                      attached_dsim = Some 2, pm_usage = 1\<rparr>,
      funcs = Some hibernation_funcs, trig_cnt = 3, block_cnt = 0, cam_op_reg = None,
      wb = None, dsim = None, lock = False, work = False, calls = []\<rparr>"

definition hiber_asleep :: exynos_hibernation where
  "hiber_asleep =
     \<lparr>decon = Some \<lparr>state = DECON_STATE_HIBERNATION, bts_fps = 60, attached_wb = Some 1,
                      attached_dsim = Some 2, pm_usage = 0\<rparr>,
      funcs = Some hibernation_funcs, trig_cnt = 3, block_cnt = 0, cam_op_reg = None,
      wb = Some 1, dsim = Some 2, lock = False, work = False, calls = []\<rparr>"

section \<open>Properties\<close>

subsection \<open>What enter and exit compute\<close>

lemmas prim_defs =
  log_call_def map_decon_def decon_state_of_def atomic_inc_def atomic_dec_def
  mutex_lock_def mutex_unlock_def kthread_cancel_work_sync_def
  hibernation_block_def hibernation_unblock_def decon_get_wb_def decon_get_dsim_def
  writeback_enter_hibernation_def writeback_exit_hibernation_def
  decon_enter_hibernation_def decon_exit_hibernation_def dsim_enter_ulps_def
  dsim_exit_ulps_def release_bw_def pm_runtime_put_sync_def pm_runtime_get_sync_def
  exynos_hibernation_trig_reset_def

lemma enter_absent: "decon h = None \<Longrightarrow> exynos_hibernation_enter h = Some h"
  by (simp add: exynos_hibernation_enter_def)

lemma enter_locked: "decon h = Some d \<Longrightarrow> lock h \<Longrightarrow> exynos_hibernation_enter h = None"
  by (simp add: exynos_hibernation_enter_def mutex_lock_def)

lemma enter_not_on:
  "decon h = Some d \<Longrightarrow> state d \<noteq> DECON_STATE_ON \<Longrightarrow> \<not> lock h \<Longrightarrow>
   exynos_hibernation_enter h =
     Some (h\<lparr>calls := calls h @
              [MUTEX_LOCK, HIBERNATION_BLOCK, HIBERNATION_UNBLOCK, MUTEX_UNLOCK]\<rparr>)"
  by (cases h) (simp add: exynos_hibernation_enter_def prim_defs)

lemma enter_on:
  "decon h = Some d \<Longrightarrow> state d = DECON_STATE_ON \<Longrightarrow> \<not> lock h \<Longrightarrow>
   exynos_hibernation_enter h =
     Some (h\<lparr>decon := Some (d\<lparr>state := DECON_STATE_HIBERNATION, pm_usage := pm_usage d - 1\<rparr>),
             wb := attached_wb d, dsim := attached_dsim d,
             calls := calls h @ enter_calls (attached_wb d) (attached_dsim d)\<rparr>)"
  by (cases h) (simp add: exynos_hibernation_enter_def prim_defs enter_calls_def Let_def
      split: option.split)

lemma exit_absent: "decon h = None \<Longrightarrow> exynos_hibernation_exit h = Some (- ENODEV, h)"
  by (simp add: exynos_hibernation_exit_def)

lemma exit_locked: "decon h = Some d \<Longrightarrow> lock h \<Longrightarrow> exynos_hibernation_exit h = None"
  by (simp add: exynos_hibernation_exit_def prim_defs)

lemma exit_not_hibernating:
  "decon h = Some d \<Longrightarrow> state d \<noteq> DECON_STATE_HIBERNATION \<Longrightarrow> \<not> lock h \<Longrightarrow>
   exynos_hibernation_exit h =
     Some (- EBUSY,
           h\<lparr>trig_cnt := trig_reset_entry_cnt (bts_fps d), work := False,
             calls := calls h @ [HIBERNATION_BLOCK, KTHREAD_CANCEL_WORK_SYNC, MUTEX_LOCK,
                                 MUTEX_UNLOCK, HIBERNATION_UNBLOCK]\<rparr>)"
  by (cases h) (simp add: exynos_hibernation_exit_def prim_defs)

lemma exit_hibernating:
  "decon h = Some d \<Longrightarrow> state d = DECON_STATE_HIBERNATION \<Longrightarrow> \<not> lock h \<Longrightarrow>
   exynos_hibernation_exit h =
     Some (0,
           h\<lparr>decon := Some (d\<lparr>state := DECON_STATE_ON, pm_usage := pm_usage d + 1\<rparr>),
             trig_cnt := trig_reset_entry_cnt (bts_fps d), wb := None, dsim := None,
             work := False, calls := calls h @ exit_calls (wb h) (dsim h)\<rparr>)"
  by (cases h) (simp add: exynos_hibernation_exit_def prim_defs exit_calls_def Let_def
      split: option.split)

subsection \<open>Eligibility check\<close>

lemma check_unfold:
  "exynos_hibernation_check h =
     (if block_cnt h = 0 \<and> \<not> is_camera_operating h
      then (trig_cnt h - 1 = 0, h\<lparr>trig_cnt := trig_cnt h - 1\<rparr>)
      else (False, h))"
  by (simp add: exynos_hibernation_check_def is_hibernaton_blocked_def
      atomic_dec_and_test_def)

text \<open>
  C1, as the code has it. The check is true exactly when the veto count is zero, the camera
  register is absent or reads zero under the mask, and the decrement takes the trigger
  counter to zero. The counter is decremented exactly when the first two conditions hold;
  when the veto count is not zero or the camera is operating, the controller is returned
  unchanged.
\<close>

theorem check_result_and_countdown:
  "fst (exynos_hibernation_check h) =
     (block_cnt h = 0 \<and> \<not> is_camera_operating h \<and> trig_cnt h - 1 = 0)
   \<and> snd (exynos_hibernation_check h) =
     (if block_cnt h = 0 \<and> \<not> is_camera_operating h
      then h\<lparr>trig_cnt := trig_cnt h - 1\<rparr> else h)
   \<and> is_camera_operating h =
     (case cam_op_reg h of None \<Rightarrow> False | Some v \<Rightarrow> v AND 0xF \<noteq> 0)"
proof (intro conjI)
  show "fst (exynos_hibernation_check h) =
     (block_cnt h = 0 \<and> \<not> is_camera_operating h \<and> trig_cnt h - 1 = 0)"
    by (simp add: check_unfold)
  show "snd (exynos_hibernation_check h) =
     (if block_cnt h = 0 \<and> \<not> is_camera_operating h
      then h\<lparr>trig_cnt := trig_cnt h - 1\<rparr> else h)"
    by (simp add: check_unfold)
  show "is_camera_operating h =
     (case cam_op_reg h of None \<Rightarrow> False | Some v \<Rightarrow> v AND 0xF \<noteq> 0)"
    by (simp add: is_camera_operating_def CAMERA_OPERATION_MASK_def split: option.split)
qed

text \<open>
  C1 as stated fails: with a veto held, or with the camera operating, a call of the check
  leaves the trigger counter at 3 instead of taking it to 2.
\<close>

theorem check_countdown_not_consumed:
  "block_cnt (hiber_active\<lparr>block_cnt := 1\<rparr>) \<noteq> 0
   \<and> trig_cnt (snd (exynos_hibernation_check (hiber_active\<lparr>block_cnt := 1\<rparr>))) = 3
   \<and> trig_cnt (hiber_active\<lparr>block_cnt := 1\<rparr>) - 1 = 2
   \<and> is_camera_operating (hiber_active\<lparr>cam_op_reg := Some 1\<rparr>)
   \<and> trig_cnt (snd (exynos_hibernation_check (hiber_active\<lparr>cam_op_reg := Some 1\<rparr>))) = 3
   \<and> trig_cnt (hiber_active\<lparr>cam_op_reg := Some 1\<rparr>) - 1 = 2"
  by (simp add: check_unfold hiber_active_def is_camera_operating_def
      CAMERA_OPERATION_MASK_def)

subsection \<open>Block and ensure active\<close>

lemma block_preserves:
  "decon (hibernation_block h) = decon h" "lock (hibernation_block h) = lock h"
  "funcs (hibernation_block h) = funcs h"
  "block_cnt (hibernation_block h) = block_cnt h + 1"
  "calls (hibernation_block h) = calls h @ [HIBERNATION_BLOCK]"
  "wb (hibernation_block h) = wb h" "dsim (hibernation_block h) = dsim h"
  by (simp_all add: prim_defs)

lemma entry_cnt_default: "trig_reset_entry_cnt 0 = 3" "trig_reset_entry_cnt 60 = 3"
  by (simp_all add: trig_reset_entry_cnt_def DIV_ROUND_UP_def word_sless_alt
      HIBERNATION_ENTRY_MIN_TIME_MS_def MSEC_PER_SEC_def HIBERNATION_ENTRY_MIN_ENTRY_CNT_def
      HIBERNATION_ENTRY_DEFAULT_FPS_def)

text \<open>
  C2, as the code has it. On a controller (with the mutex free whenever the exit will take
  it) \<^verbatim>\<open>hibernation_block_exit\<close> returns, the veto count is one higher than before,
  and exit has been called on the blocked controller if there is a function table. The
  result is true exactly when there is no function table or exit returned 0, that is, the
  pipeline was hibernating and this call has woken it; it is false when the pipeline is
  absent (exit returned \<open>- ENODEV\<close>) or was not hibernating (\<open>- EBUSY\<close>).
\<close>

theorem block_exit_result:
  assumes "funcs h = None \<or> decon h = None \<or> \<not> lock h"
  shows "\<exists>h'. hibernation_block_exit (Some h) =
           Some (funcs h = None \<or> decon_state_of h = Some DECON_STATE_HIBERNATION, Some h')
     \<and> block_cnt h' = block_cnt h + 1
     \<and> (funcs h = None \<and> h' = hibernation_block h
        \<or> funcs h \<noteq> None
          \<and> exynos_hibernation_exit (hibernation_block h) =
              Some (if decon h = None then - ENODEV
                    else if decon_state_of h = Some DECON_STATE_HIBERNATION then 0
                    else - EBUSY, h'))
     \<and> (funcs h \<noteq> None \<and> decon_state_of h = Some DECON_STATE_HIBERNATION
          \<longrightarrow> decon_state_of h' = Some DECON_STATE_ON)"
proof (cases "funcs h")
  case None
  then show ?thesis
    by (simp add: hibernation_block_exit_def block_preserves)
next
  case (Some f)
  then have f: "f = hibernation_funcs" by (cases f) simp
  show ?thesis
  proof (cases "decon h")
    case None
    then have "exynos_hibernation_exit (hibernation_block h) = Some (- ENODEV, hibernation_block h)"
      by (simp add: exit_absent block_preserves)
    with Some None f show ?thesis
      by (simp add: hibernation_block_exit_def block_preserves decon_state_of_def ENODEV_def)
  next
    case d: (Some d)
    with assms Some have nl: "\<not> lock (hibernation_block h)" by (simp add: block_preserves)
    have dd: "decon (hibernation_block h) = Some d" using d by (simp add: block_preserves)
    show ?thesis
    proof (cases "state d = DECON_STATE_HIBERNATION")
      case True
      from exit_hibernating [OF dd True nl] Some d f True show ?thesis
        by (simp add: hibernation_block_exit_def block_preserves decon_state_of_def)
    next
      case False
      from exit_not_hibernating [OF dd False nl] Some d f False show ?thesis
        by (simp add: hibernation_block_exit_def block_preserves decon_state_of_def EBUSY_def)
    qed
  qed
qed

text \<open>
  The theorem of C2 at the two sample controllers: true and awake from the hibernating
  one, false from the active one, the veto count 1 after both.
\<close>

theorem block_exit_result_witness:
  "(\<exists>h'. hibernation_block_exit (Some hiber_asleep) = Some (True, Some h')
      \<and> block_cnt h' = 1 \<and> decon_state_of h' = Some DECON_STATE_ON)
   \<and> (\<exists>h'. hibernation_block_exit (Some hiber_active) = Some (False, Some h')
      \<and> block_cnt h' = 1)"
  using block_exit_result [of hiber_asleep] block_exit_result [of hiber_active]
  by (auto simp add: hiber_asleep_def hiber_active_def decon_state_of_def)

text \<open>
  C2 as stated fails: on the hibernating sample the exit succeeds and leaves the pipeline
  \<open>DECON_STATE_ON\<close>, and the result is true.
\<close>

theorem block_exit_true_after_wake:
  "hibernation_block_exit (Some hiber_asleep) =
     Some (True,
           Some (hiber_asleep
                   \<lparr>decon := Some \<lparr>state = DECON_STATE_ON, bts_fps = 60, attached_wb = Some 1,
                                    attached_dsim = Some 2, pm_usage = 1\<rparr>,
                     block_cnt := 1, wb := None, dsim := None,
                     calls := [HIBERNATION_BLOCK, HIBERNATION_BLOCK, KTHREAD_CANCEL_WORK_SYNC,
                               MUTEX_LOCK, PM_RUNTIME_GET_SYNC, DSIM_EXIT_ULPS 2,
                               DECON_EXIT_HIBERNATION, WRITEBACK_EXIT_HIBERNATION 1,
                               MUTEX_UNLOCK, HIBERNATION_UNBLOCK]\<rparr>))"
  by (simp add: hibernation_block_exit_def exynos_hibernation_exit_def prim_defs
      hiber_asleep_def entry_cnt_default)

text \<open>
  C10. On a \<^verbatim>\<open>NULL\<close> controller \<^verbatim>\<open>hibernation_block_exit\<close> returns false; there
  is no controller in the result, so no veto count was incremented and no exit was called.
\<close>

theorem block_exit_null: "hibernation_block_exit None = Some (False, None)"
  by (simp add: hibernation_block_exit_def)

subsection \<open>Exit\<close>

text \<open>
  C4. With the mutex free (or no pipeline), exit returns one of three distinct values:
  \<open>- ENODEV\<close> exactly when the pipeline is absent, \<open>- EBUSY\<close> exactly when the
  pipeline is present and not hibernating, \<open>0\<close> exactly when the pipeline is hibernating.
  With \<open>0\<close> the calls of the exit sequence have been made and the pipeline is
  \<open>DECON_STATE_ON\<close>; with \<open>- EBUSY\<close> no subsystem was called; with \<open>- ENODEV\<close>
  nothing was called at all.
\<close>

theorem exit_outcomes:
  assumes "decon h = None \<or> \<not> lock h"
  shows "\<exists>r h'. exynos_hibernation_exit h = Some (r, h')
     \<and> (r = - ENODEV \<or> r = - EBUSY \<or> r = 0)
     \<and> - ENODEV \<noteq> - EBUSY \<and> - ENODEV \<noteq> 0 \<and> - EBUSY \<noteq> 0
     \<and> (r = - ENODEV) = (decon h = None)
     \<and> (r = - EBUSY) = (decon h \<noteq> None \<and> decon_state_of h \<noteq> Some DECON_STATE_HIBERNATION)
     \<and> (r = 0) = (decon_state_of h = Some DECON_STATE_HIBERNATION)
     \<and> calls h' = calls h @
         (if r = 0 then exit_calls (wb h) (dsim h)
          else if r = - EBUSY
          then [HIBERNATION_BLOCK, KTHREAD_CANCEL_WORK_SYNC, MUTEX_LOCK, MUTEX_UNLOCK,
                HIBERNATION_UNBLOCK]
          else [])
     \<and> (if r = 0 then decon_state_of h' = Some DECON_STATE_ON
        else decon_state_of h' = decon_state_of h)"
proof (cases "decon h")
  case None
  then show ?thesis
    by (simp add: exit_absent decon_state_of_def ENODEV_def EBUSY_def)
next
  case (Some d)
  with assms have nl: "\<not> lock h" by simp
  show ?thesis
  proof (cases "state d = DECON_STATE_HIBERNATION")
    case True
    from exit_hibernating [OF Some True nl] Some True show ?thesis
      by (simp add: decon_state_of_def ENODEV_def EBUSY_def)
  next
    case False
    from exit_not_hibernating [OF Some False nl] Some False show ?thesis
      by (simp add: decon_state_of_def ENODEV_def EBUSY_def)
  qed
qed

text \<open>
  The theorem of C4 at three controllers: hibernating (0, with the calls of the exit
  sequence), active (\<open>- EBUSY\<close>), and without a pipeline (\<open>- ENODEV\<close>).
\<close>

theorem exit_outcomes_witness:
  "(\<exists>h'. exynos_hibernation_exit hiber_asleep = Some (0, h')
      \<and> calls h' = [HIBERNATION_BLOCK, KTHREAD_CANCEL_WORK_SYNC, MUTEX_LOCK,
                    PM_RUNTIME_GET_SYNC, DSIM_EXIT_ULPS 2, DECON_EXIT_HIBERNATION,
                    WRITEBACK_EXIT_HIBERNATION 1, MUTEX_UNLOCK, HIBERNATION_UNBLOCK])
   \<and> (\<exists>h'. exynos_hibernation_exit hiber_active = Some (- 16, h'))
   \<and> (\<exists>h'. exynos_hibernation_exit (hiber_active\<lparr>decon := None, lock := True\<rparr>) =
             Some (- 19, h'))"
  using exit_outcomes [of hiber_asleep] exit_outcomes [of hiber_active]
    exit_outcomes [of "hiber_active\<lparr>decon := None, lock := True\<rparr>"]
  by (auto simp add: hiber_asleep_def hiber_active_def decon_state_of_def exit_calls_def
      ENODEV_def EBUSY_def)

text \<open>
  C5, as the code has it. With a pipeline present and the mutex free, exit stores the
  freshly computed count in the trigger counter, whatever the pipeline state. When the
  pipeline is not hibernating, exit returns \<open>- EBUSY\<close>, calls no subsystem, and changes
  nothing but the trigger counter and the queued entry work, which
  \<^verbatim>\<open>kthread_cancel_work_sync\<close> cancels.
\<close>

theorem exit_when_not_hibernating:
  assumes "decon h = Some d" and "\<not> lock h"
  shows "\<exists>r h'. exynos_hibernation_exit h = Some (r, h')
     \<and> trig_cnt h' = trig_reset_entry_cnt (bts_fps d)
     \<and> (state d \<noteq> DECON_STATE_HIBERNATION \<longrightarrow>
          r = - EBUSY
          \<and> h' = h\<lparr>trig_cnt := trig_reset_entry_cnt (bts_fps d), work := False,
                    calls := calls h @ [HIBERNATION_BLOCK, KTHREAD_CANCEL_WORK_SYNC,
                                        MUTEX_LOCK, MUTEX_UNLOCK, HIBERNATION_UNBLOCK]\<rparr>)"
proof (cases "state d = DECON_STATE_HIBERNATION")
  case True
  from exit_hibernating [OF assms(1) True assms(2)] True show ?thesis by simp
next
  case False
  from exit_not_hibernating [OF assms(1) False assms(2)] False show ?thesis by simp
qed

text \<open>
  The theorem of C5 at the active sample with its trigger counter run down to 1 (the
  counter is back at 3 and nothing else has changed), and at the hibernating sample.
\<close>

theorem exit_when_not_hibernating_witness:
  "exynos_hibernation_exit (hiber_active\<lparr>trig_cnt := 1\<rparr>) =
     Some (- 16,
           hiber_active\<lparr>calls := [HIBERNATION_BLOCK, KTHREAD_CANCEL_WORK_SYNC,
                                  MUTEX_LOCK, MUTEX_UNLOCK, HIBERNATION_UNBLOCK]\<rparr>)
   \<and> (\<exists>h'. exynos_hibernation_exit (hiber_asleep\<lparr>trig_cnt := 1\<rparr>) = Some (0, h')
        \<and> trig_cnt h' = 3)"
  using exit_when_not_hibernating [of "hiber_active\<lparr>trig_cnt := 1\<rparr>"
      "\<lparr>state = DECON_STATE_ON, bts_fps = 60, attached_wb = Some 1,
                      attached_dsim = Some 2, pm_usage = 1\<rparr>"]
    exit_when_not_hibernating [of "hiber_asleep\<lparr>trig_cnt := 1\<rparr>"
      "\<lparr>state = DECON_STATE_HIBERNATION, bts_fps = 60, attached_wb = Some 1,
                      attached_dsim = Some 2, pm_usage = 0\<rparr>"]
    exit_hibernating [of "hiber_asleep\<lparr>trig_cnt := 1\<rparr>"
      "\<lparr>state = DECON_STATE_HIBERNATION, bts_fps = 60, attached_wb = Some 1,
                      attached_dsim = Some 2, pm_usage = 0\<rparr>"]
  by (auto simp add: hiber_asleep_def hiber_active_def entry_cnt_default EBUSY_def)

text \<open>
  C5 as stated fails: on the active sample with entry work queued, exit returns
  \<open>- EBUSY\<close> and the work is no longer queued, while the trigger counter is 3 before
  and after.
\<close>

theorem exit_cancels_queued_work:
  "exynos_hibernation_exit (hiber_active\<lparr>work := True\<rparr>) =
     Some (- EBUSY,
           hiber_active\<lparr>work := False,
                         calls := [HIBERNATION_BLOCK, KTHREAD_CANCEL_WORK_SYNC,
                                   MUTEX_LOCK, MUTEX_UNLOCK, HIBERNATION_UNBLOCK]\<rparr>)
   \<and> decon_state_of (hiber_active\<lparr>work := True\<rparr>) = Some DECON_STATE_ON
   \<and> work (hiber_active\<lparr>work := True\<rparr>)
   \<and> trig_cnt (hiber_active\<lparr>work := True\<rparr>) = 3"
  by (simp add: exynos_hibernation_exit_def prim_defs hiber_active_def entry_cnt_default)

subsection \<open>Enter\<close>

text \<open>
  C7. When the pipeline is present and its state is not \<open>DECON_STATE_ON\<close>, enter (with
  the mutex free) returns normally, having called only the mutex, block, unblock and the
  mutex again: no subsystem is notified, and the controller is as before (pipeline,
  captured handles, veto count, the mutex free).
\<close>

theorem enter_when_not_active:
  assumes "decon h = Some d" and "state d \<noteq> DECON_STATE_ON" and "\<not> lock h"
  shows "\<exists>h'. exynos_hibernation_enter h = Some h'
     \<and> h' = h\<lparr>calls := calls h @
                 [MUTEX_LOCK, HIBERNATION_BLOCK, HIBERNATION_UNBLOCK, MUTEX_UNLOCK]\<rparr>
     \<and> decon h' = decon h \<and> wb h' = wb h \<and> dsim h' = dsim h
     \<and> block_cnt h' = block_cnt h \<and> \<not> lock h'"
  using enter_not_on [OF assms] assms(3) by simp

text \<open>The theorem of C7 at the hibernating sample.\<close>

theorem enter_when_not_active_witness:
  "exynos_hibernation_enter hiber_asleep =
     Some (hiber_asleep\<lparr>calls :=
             [MUTEX_LOCK, HIBERNATION_BLOCK, HIBERNATION_UNBLOCK, MUTEX_UNLOCK]\<rparr>)"
  using enter_when_not_active [of hiber_asleep
      "\<lparr>state = DECON_STATE_HIBERNATION, bts_fps = 60, attached_wb = Some 1,
                      attached_dsim = Some 2, pm_usage = 0\<rparr>"]
  by (simp add: hiber_asleep_def)

subsection \<open>The veto count across enter and exit\<close>

lemma enter_cases:
  assumes "exynos_hibernation_enter h = Some h'"
  obtains (absent) "decon h = None" "h' = h"
  | (not_on) d where "decon h = Some d" "state d \<noteq> DECON_STATE_ON" "\<not> lock h"
      "h' = h\<lparr>calls := calls h @
              [MUTEX_LOCK, HIBERNATION_BLOCK, HIBERNATION_UNBLOCK, MUTEX_UNLOCK]\<rparr>"
  | (on) d where "decon h = Some d" "state d = DECON_STATE_ON" "\<not> lock h"
      "h' = h\<lparr>decon := Some (d\<lparr>state := DECON_STATE_HIBERNATION, pm_usage := pm_usage d - 1\<rparr>),
             wb := attached_wb d, dsim := attached_dsim d,
             calls := calls h @ enter_calls (attached_wb d) (attached_dsim d)\<rparr>"
proof (cases "decon h")
  case None
  have "h' = h" using assms enter_absent [OF None] by simp
  with None show ?thesis by (rule absent)
next
  case (Some d)
  have nl: "\<not> lock h" using assms enter_locked [OF Some] by auto
  show ?thesis
  proof (cases "state d = DECON_STATE_ON")
    case True
    from assms enter_on [OF Some True nl] show ?thesis
      by (intro on [OF Some True nl]) simp
  next
    case False
    from assms enter_not_on [OF Some False nl] show ?thesis
      by (intro not_on [OF Some False nl]) simp
  qed
qed

lemma exit_cases:
  assumes "exynos_hibernation_exit h = Some (r, h')"
  obtains (absent) "decon h = None" "r = - ENODEV" "h' = h"
  | (not_hibernating) d where "decon h = Some d" "state d \<noteq> DECON_STATE_HIBERNATION"
      "\<not> lock h" "r = - EBUSY"
      "h' = h\<lparr>trig_cnt := trig_reset_entry_cnt (bts_fps d), work := False,
             calls := calls h @ [HIBERNATION_BLOCK, KTHREAD_CANCEL_WORK_SYNC, MUTEX_LOCK,
                                 MUTEX_UNLOCK, HIBERNATION_UNBLOCK]\<rparr>"
  | (hibernating) d where "decon h = Some d" "state d = DECON_STATE_HIBERNATION"
      "\<not> lock h" "r = 0"
      "h' = h\<lparr>decon := Some (d\<lparr>state := DECON_STATE_ON, pm_usage := pm_usage d + 1\<rparr>),
             trig_cnt := trig_reset_entry_cnt (bts_fps d), wb := None, dsim := None,
             work := False, calls := calls h @ exit_calls (wb h) (dsim h)\<rparr>"
proof (cases "decon h")
  case None
  have "r = - ENODEV" "h' = h" using assms exit_absent [OF None] by simp_all
  with None show ?thesis by (rule absent)
next
  case (Some d)
  have nl: "\<not> lock h" using assms exit_locked [OF Some] by auto
  show ?thesis
  proof (cases "state d = DECON_STATE_HIBERNATION")
    case True
    from assms exit_hibernating [OF Some True nl] show ?thesis
      by (intro hibernating [OF Some True nl]) simp_all
  next
    case False
    from assms exit_not_hibernating [OF Some False nl] show ?thesis
      by (intro not_hibernating [OF Some False nl]) simp_all
  qed
qed

text \<open>
  C9. Whenever enter or exit returns, the veto count is what it was before the call, and
  the calls made in between contain as many blocks as unblocks: one of each when there is
  a pipeline, none when there is not (enter's and exit's early return). Both return
  whenever the mutex is free or there is no pipeline.
\<close>

theorem enter_exit_keep_block_cnt:
  "(\<forall>h'. exynos_hibernation_enter h = Some h' \<longrightarrow>
      block_cnt h' = block_cnt h
      \<and> (\<exists>cs. calls h' = calls h @ cs
           \<and> count_list cs HIBERNATION_BLOCK = (if decon h = None then 0 else 1)
           \<and> count_list cs HIBERNATION_UNBLOCK = (if decon h = None then 0 else 1)))
   \<and> (\<forall>r h'. exynos_hibernation_exit h = Some (r, h') \<longrightarrow>
      block_cnt h' = block_cnt h
      \<and> (\<exists>cs. calls h' = calls h @ cs
           \<and> count_list cs HIBERNATION_BLOCK = (if decon h = None then 0 else 1)
           \<and> count_list cs HIBERNATION_UNBLOCK = (if decon h = None then 0 else 1)))
   \<and> (decon h = None \<or> \<not> lock h \<longrightarrow>
        exynos_hibernation_enter h \<noteq> None \<and> exynos_hibernation_exit h \<noteq> None)"
proof (intro conjI allI impI)
  fix h' assume e: "exynos_hibernation_enter h = Some h'"
  then show "block_cnt h' = block_cnt h"
    by (cases rule: enter_cases) simp_all
  from e show "\<exists>cs. calls h' = calls h @ cs
           \<and> count_list cs HIBERNATION_BLOCK = (if decon h = None then 0 else 1)
           \<and> count_list cs HIBERNATION_UNBLOCK = (if decon h = None then 0 else 1)"
    by (cases rule: enter_cases) (simp_all add: enter_calls_def split: option.split)
next
  fix r h' assume e: "exynos_hibernation_exit h = Some (r, h')"
  then show "block_cnt h' = block_cnt h"
    by (cases rule: exit_cases) simp_all
  from e show "\<exists>cs. calls h' = calls h @ cs
           \<and> count_list cs HIBERNATION_BLOCK = (if decon h = None then 0 else 1)
           \<and> count_list cs HIBERNATION_UNBLOCK = (if decon h = None then 0 else 1)"
    by (cases rule: exit_cases) (simp_all add: exit_calls_def split: option.split)
next
  assume a: "decon h = None \<or> \<not> lock h"
  show "exynos_hibernation_enter h \<noteq> None"
  proof (cases "decon h")
    case None then show ?thesis by (simp add: enter_absent)
  next
    case (Some d)
    with a have "\<not> lock h" by simp
    with Some show ?thesis
      by (cases "state d = DECON_STATE_ON") (simp_all add: enter_on enter_not_on)
  qed
  show "exynos_hibernation_exit h \<noteq> None"
  proof (cases "decon h")
    case None then show ?thesis by (simp add: exit_absent)
  next
    case (Some d)
    with a have "\<not> lock h" by simp
    with Some show ?thesis
      by (cases "state d = DECON_STATE_HIBERNATION")
        (simp_all add: exit_hibernating exit_not_hibernating)
  qed
qed

text \<open>
  The theorem of C9 with a veto count of 5: enter from the active sample, exit from the
  hibernating sample, exit without a pipeline.
\<close>

theorem enter_exit_keep_block_cnt_witness:
  "(\<exists>h'. exynos_hibernation_enter (hiber_active\<lparr>block_cnt := 5\<rparr>) = Some h' \<and> block_cnt h' = 5)
   \<and> (\<exists>r h'. exynos_hibernation_exit (hiber_asleep\<lparr>block_cnt := 5\<rparr>) = Some (r, h')
         \<and> block_cnt h' = 5)
   \<and> (\<exists>r h'. exynos_hibernation_exit (hiber_active\<lparr>decon := None, block_cnt := 5\<rparr>) = Some (r, h')
         \<and> block_cnt h' = 5)"
  using enter_exit_keep_block_cnt [of "hiber_active\<lparr>block_cnt := 5\<rparr>"]
    enter_exit_keep_block_cnt [of "hiber_asleep\<lparr>block_cnt := 5\<rparr>"]
    enter_exit_keep_block_cnt [of "hiber_active\<lparr>decon := None, block_cnt := 5\<rparr>"]
  by (auto simp add: hiber_active_def hiber_asleep_def)

subsection \<open>Order of the subsystem calls\<close>

lemma enter_then_exit:
  assumes "decon h = Some d" and "state d = DECON_STATE_ON" and "\<not> lock h"
  shows "\<exists>h1. exynos_hibernation_enter h = Some h1
     \<and> exynos_hibernation_exit h1 =
         Some (0, h\<lparr>trig_cnt := trig_reset_entry_cnt (bts_fps d), wb := None, dsim := None,
                     work := False,
                     calls := calls h @ enter_calls (attached_wb d) (attached_dsim d)
                                      @ exit_calls (attached_wb d) (attached_dsim d)\<rparr>)"
proof -
  let ?d1 = "d\<lparr>state := DECON_STATE_HIBERNATION, pm_usage := pm_usage d - 1\<rparr>"
  let ?h1 = "h\<lparr>decon := Some ?d1, wb := attached_wb d, dsim := attached_dsim d,
               calls := calls h @ enter_calls (attached_wb d) (attached_dsim d)\<rparr>"
  have e: "exynos_hibernation_enter h = Some ?h1"
    by (rule enter_on [OF assms])
  have d1: "decon ?h1 = Some ?d1" "state ?d1 = DECON_STATE_HIBERNATION" "\<not> lock ?h1"
    using assms(3) by simp_all
  have undo: "?d1\<lparr>state := DECON_STATE_ON, pm_usage := pm_usage ?d1 + 1\<rparr> = d"
    using assms(2) by (cases d) simp
  have same: "h\<lparr>decon := Some d\<rparr> = h"
    using assms(1) by (cases h) simp
  have "exynos_hibernation_exit ?h1 =
      Some (0, h\<lparr>decon := Some d\<rparr>\<lparr>trig_cnt := trig_reset_entry_cnt (bts_fps d), wb := None, dsim := None,
                     work := False,
                     calls := calls h @ enter_calls (attached_wb d) (attached_dsim d)
                                      @ exit_calls (attached_wb d) (attached_dsim d)\<rparr>)"
    unfolding exit_hibernating [OF d1] undo by simp
  with e show ?thesis unfolding same by simp
qed

lemma cycles_run:
  assumes "decon h = Some d" and "state d = DECON_STATE_ON" and "\<not> lock h"
  shows "\<exists>hn. enter_exit_cycles n h = Some hn
     \<and> decon hn = Some d \<and> \<not> lock hn
     \<and> calls hn = calls h @ concat (replicate n
          (enter_calls (attached_wb d) (attached_dsim d)
           @ exit_calls (attached_wb d) (attached_dsim d)))"
  using assms
proof (induction n arbitrary: h)
  case 0
  then show ?case by simp
next
  case (Suc n)
  let ?h2 = "h\<lparr>trig_cnt := trig_reset_entry_cnt (bts_fps d), wb := None, dsim := None,
                     work := False,
                     calls := calls h @ enter_calls (attached_wb d) (attached_dsim d)
                                      @ exit_calls (attached_wb d) (attached_dsim d)\<rparr>"
  from enter_then_exit [OF Suc.prems] obtain h1 where
    e: "exynos_hibernation_enter h = Some h1" and
    x: "exynos_hibernation_exit h1 = Some (0, ?h2)"
    by blast
  have p: "decon ?h2 = Some d" "\<not> lock ?h2" using Suc.prems by simp_all
  from Suc.IH [OF p(1) Suc.prems(2) p(2)] obtain hn where
    "enter_exit_cycles n ?h2 = Some hn" "decon hn = Some d" "\<not> lock hn"
    "calls hn = calls ?h2 @ concat (replicate n
          (enter_calls (attached_wb d) (attached_dsim d)
           @ exit_calls (attached_wb d) (attached_dsim d)))"
    by blast
  with e x show ?case by simp
qed

text \<open>
  C3. On an active pipeline with the mutex free, enter calls, in this order: writeback
  enter (if a writeback is attached), pipeline enter, link ULPS enter (if a link is
  attached), bandwidth release, one runtime-PM put; the pipeline is then hibernating and
  the usage count one lower. The exit that follows returns 0 and calls, in this order: one
  runtime-PM get, link ULPS exit, pipeline exit, writeback exit (for the handles enter
  captured); the pipeline is then on and the usage count is what it was. After any number
  of enter/exit cycles the log is that many copies of these two sequences and the usage
  count is unchanged.
\<close>

theorem enter_exit_call_order:
  assumes "decon h = Some d" and "state d = DECON_STATE_ON" and "\<not> lock h"
  shows "\<exists>h1 h2. exynos_hibernation_enter h = Some h1
     \<and> calls h1 = calls h
         @ [MUTEX_LOCK, HIBERNATION_BLOCK]
         @ (case attached_wb d of Some w \<Rightarrow> [WRITEBACK_ENTER_HIBERNATION w] | None \<Rightarrow> [])
         @ [DECON_ENTER_HIBERNATION]
         @ (case attached_dsim d of Some l \<Rightarrow> [DSIM_ENTER_ULPS l] | None \<Rightarrow> [])
         @ [RELEASE_BW, PM_RUNTIME_PUT_SYNC, HIBERNATION_UNBLOCK, MUTEX_UNLOCK]
     \<and> decon_state_of h1 = Some DECON_STATE_HIBERNATION
     \<and> pm_usage_of h1 = Some (pm_usage d - 1)
     \<and> exynos_hibernation_exit h1 = Some (0, h2)
     \<and> calls h2 = calls h1
         @ [HIBERNATION_BLOCK, KTHREAD_CANCEL_WORK_SYNC, MUTEX_LOCK, PM_RUNTIME_GET_SYNC]
         @ (case attached_dsim d of Some l \<Rightarrow> [DSIM_EXIT_ULPS l] | None \<Rightarrow> [])
         @ [DECON_EXIT_HIBERNATION]
         @ (case attached_wb d of Some w \<Rightarrow> [WRITEBACK_EXIT_HIBERNATION w] | None \<Rightarrow> [])
         @ [MUTEX_UNLOCK, HIBERNATION_UNBLOCK]
     \<and> decon_state_of h2 = Some DECON_STATE_ON
     \<and> pm_usage_of h2 = Some (pm_usage d)
     \<and> (\<forall>n. \<exists>hn. enter_exit_cycles n h = Some hn
           \<and> decon_state_of hn = Some DECON_STATE_ON
           \<and> pm_usage_of hn = Some (pm_usage d)
           \<and> calls hn = calls h @ concat (replicate n
                (enter_calls (attached_wb d) (attached_dsim d)
                 @ exit_calls (attached_wb d) (attached_dsim d))))"
proof -
  let ?d1 = "d\<lparr>state := DECON_STATE_HIBERNATION, pm_usage := pm_usage d - 1\<rparr>"
  let ?h1 = "h\<lparr>decon := Some ?d1, wb := attached_wb d, dsim := attached_dsim d,
               calls := calls h @ enter_calls (attached_wb d) (attached_dsim d)\<rparr>"
  let ?h2 = "h\<lparr>trig_cnt := trig_reset_entry_cnt (bts_fps d), wb := None, dsim := None,
                     work := False,
                     calls := calls h @ enter_calls (attached_wb d) (attached_dsim d)
                                      @ exit_calls (attached_wb d) (attached_dsim d)\<rparr>"
  have e: "exynos_hibernation_enter h = Some ?h1"
    by (rule enter_on [OF assms])
  from enter_then_exit [OF assms] e have x: "exynos_hibernation_exit ?h1 = Some (0, ?h2)"
    by simp
  have c1: "calls ?h1 = calls h
         @ [MUTEX_LOCK, HIBERNATION_BLOCK]
         @ (case attached_wb d of Some w \<Rightarrow> [WRITEBACK_ENTER_HIBERNATION w] | None \<Rightarrow> [])
         @ [DECON_ENTER_HIBERNATION]
         @ (case attached_dsim d of Some l \<Rightarrow> [DSIM_ENTER_ULPS l] | None \<Rightarrow> [])
         @ [RELEASE_BW, PM_RUNTIME_PUT_SYNC, HIBERNATION_UNBLOCK, MUTEX_UNLOCK]"
    by (simp add: enter_calls_def)
  have c2: "calls ?h2 = calls ?h1
         @ [HIBERNATION_BLOCK, KTHREAD_CANCEL_WORK_SYNC, MUTEX_LOCK, PM_RUNTIME_GET_SYNC]
         @ (case attached_dsim d of Some l \<Rightarrow> [DSIM_EXIT_ULPS l] | None \<Rightarrow> [])
         @ [DECON_EXIT_HIBERNATION]
         @ (case attached_wb d of Some w \<Rightarrow> [WRITEBACK_EXIT_HIBERNATION w] | None \<Rightarrow> [])
         @ [MUTEX_UNLOCK, HIBERNATION_UNBLOCK]"
    by (simp add: exit_calls_def)
  have s1: "decon_state_of ?h1 = Some DECON_STATE_HIBERNATION"
    "pm_usage_of ?h1 = Some (pm_usage d - 1)"
    by (simp_all add: decon_state_of_def pm_usage_of_def)
  have s2: "decon_state_of ?h2 = Some DECON_STATE_ON" "pm_usage_of ?h2 = Some (pm_usage d)"
    using assms by (simp_all add: decon_state_of_def pm_usage_of_def)
  have cyc: "\<exists>hn. enter_exit_cycles n h = Some hn
           \<and> decon_state_of hn = Some DECON_STATE_ON
           \<and> pm_usage_of hn = Some (pm_usage d)
           \<and> calls hn = calls h @ concat (replicate n
                (enter_calls (attached_wb d) (attached_dsim d)
                 @ exit_calls (attached_wb d) (attached_dsim d)))" for n
    using cycles_run [OF assms, of n] assms(2)
    by (auto simp add: decon_state_of_def pm_usage_of_def)
  from e x c1 c2 s1 s2 cyc show ?thesis by blast
qed

text \<open>
  The theorem of C3 at the active sample: the two logs, the usage count 1, 0, 1, and three
  puts and three gets after three cycles.
\<close>

theorem enter_exit_call_order_witness:
  "\<exists>h1 h2 h3. exynos_hibernation_enter hiber_active = Some h1
     \<and> calls h1 = [MUTEX_LOCK, HIBERNATION_BLOCK, WRITEBACK_ENTER_HIBERNATION 1,
                   DECON_ENTER_HIBERNATION, DSIM_ENTER_ULPS 2, RELEASE_BW,
                   PM_RUNTIME_PUT_SYNC, HIBERNATION_UNBLOCK, MUTEX_UNLOCK]
     \<and> pm_usage_of h1 = Some 0
     \<and> exynos_hibernation_exit h1 = Some (0, h2)
     \<and> calls h2 = calls h1 @
                  [HIBERNATION_BLOCK, KTHREAD_CANCEL_WORK_SYNC, MUTEX_LOCK,
                   PM_RUNTIME_GET_SYNC, DSIM_EXIT_ULPS 2, DECON_EXIT_HIBERNATION,
                   WRITEBACK_EXIT_HIBERNATION 1, MUTEX_UNLOCK, HIBERNATION_UNBLOCK]
     \<and> pm_usage_of h2 = Some 1
     \<and> enter_exit_cycles 3 hiber_active = Some h3
     \<and> pm_usage_of h3 = Some 1
     \<and> count_list (calls h3) PM_RUNTIME_PUT_SYNC = 3
     \<and> count_list (calls h3) PM_RUNTIME_GET_SYNC = 3"
proof -
  let ?d = "\<lparr>state = DECON_STATE_ON, bts_fps = 60, attached_wb = Some 1,
                      attached_dsim = Some 2, pm_usage = 1\<rparr>"
  have a: "decon hiber_active = Some ?d" "state ?d = DECON_STATE_ON" "\<not> lock hiber_active"
    by (simp_all add: hiber_active_def)
  from enter_exit_call_order [OF a] obtain h1 h2 where
    *: "exynos_hibernation_enter hiber_active = Some h1"
    "calls h1 = calls hiber_active
         @ [MUTEX_LOCK, HIBERNATION_BLOCK]
         @ (case attached_wb ?d of Some w \<Rightarrow> [WRITEBACK_ENTER_HIBERNATION w] | None \<Rightarrow> [])
         @ [DECON_ENTER_HIBERNATION]
         @ (case attached_dsim ?d of Some l \<Rightarrow> [DSIM_ENTER_ULPS l] | None \<Rightarrow> [])
         @ [RELEASE_BW, PM_RUNTIME_PUT_SYNC, HIBERNATION_UNBLOCK, MUTEX_UNLOCK]"
    "pm_usage_of h1 = Some (pm_usage ?d - 1)"
    "exynos_hibernation_exit h1 = Some (0, h2)"
    "calls h2 = calls h1
         @ [HIBERNATION_BLOCK, KTHREAD_CANCEL_WORK_SYNC, MUTEX_LOCK, PM_RUNTIME_GET_SYNC]
         @ (case attached_dsim ?d of Some l \<Rightarrow> [DSIM_EXIT_ULPS l] | None \<Rightarrow> [])
         @ [DECON_EXIT_HIBERNATION]
         @ (case attached_wb ?d of Some w \<Rightarrow> [WRITEBACK_EXIT_HIBERNATION w] | None \<Rightarrow> [])
         @ [MUTEX_UNLOCK, HIBERNATION_UNBLOCK]"
    "pm_usage_of h2 = Some (pm_usage ?d)"
    and cyc: "\<forall>n. \<exists>hn. enter_exit_cycles n hiber_active = Some hn
           \<and> decon_state_of hn = Some DECON_STATE_ON
           \<and> pm_usage_of hn = Some (pm_usage ?d)
           \<and> calls hn = calls hiber_active @ concat (replicate n
                (enter_calls (attached_wb ?d) (attached_dsim ?d)
                 @ exit_calls (attached_wb ?d) (attached_dsim ?d)))"
    by blast
  from cyc obtain h3 where
    **: "enter_exit_cycles 3 hiber_active = Some h3" "pm_usage_of h3 = Some (pm_usage ?d)"
    "calls h3 = calls hiber_active @ concat (replicate 3
                (enter_calls (attached_wb ?d) (attached_dsim ?d)
                 @ exit_calls (attached_wb ?d) (attached_dsim ?d)))"
    by blast
  have c: "count_list (calls h3) PM_RUNTIME_PUT_SYNC = 3"
    "count_list (calls h3) PM_RUNTIME_GET_SYNC = 3"
    unfolding **(3)
    by (simp_all add: hiber_active_def enter_calls_def exit_calls_def numeral_3_eq_3)
  have c1: "calls h1 = [MUTEX_LOCK, HIBERNATION_BLOCK, WRITEBACK_ENTER_HIBERNATION 1,
                   DECON_ENTER_HIBERNATION, DSIM_ENTER_ULPS 2, RELEASE_BW,
                   PM_RUNTIME_PUT_SYNC, HIBERNATION_UNBLOCK, MUTEX_UNLOCK]"
    using *(2) by (simp add: hiber_active_def)
  have c2: "calls h2 = calls h1 @
                  [HIBERNATION_BLOCK, KTHREAD_CANCEL_WORK_SYNC, MUTEX_LOCK,
                   PM_RUNTIME_GET_SYNC, DSIM_EXIT_ULPS 2, DECON_EXIT_HIBERNATION,
                   WRITEBACK_EXIT_HIBERNATION 1, MUTEX_UNLOCK, HIBERNATION_UNBLOCK]"
    using *(5) by simp
  from * ** c c1 c2 show ?thesis by simp
qed

subsection \<open>Captured handles\<close>

lemma register_handles:
  assumes "exynos_hibernation_register d p a c = Some h"
  shows "wb h = None" "dsim h = None"
  using assms
  by (auto simp add: exynos_hibernation_register_def exynos_hibernation_trig_reset_def Let_def
      split: if_splits camera_node.splits option.splits)

lemma enter_keeps_handles_invariant:
  assumes "handles_only_while_hibernating h" and "exynos_hibernation_enter h = Some h'"
  shows "handles_only_while_hibernating h'"
  using assms(2)
proof (cases rule: enter_cases)
  case absent
  with assms(1) show ?thesis by simp
next
  case (not_on d)
  with assms(1) show ?thesis
    by (simp add: handles_only_while_hibernating_def decon_state_of_def)
next
  case (on d)
  then show ?thesis
    by (simp add: handles_only_while_hibernating_def decon_state_of_def)
qed

lemma exit_keeps_handles_invariant:
  assumes "handles_only_while_hibernating h" and "exynos_hibernation_exit h = Some (r, h')"
  shows "handles_only_while_hibernating h'"
  using assms(2)
proof (cases rule: exit_cases)
  case absent
  with assms(1) show ?thesis by simp
next
  case (not_hibernating d)
  with assms(1) show ?thesis
    by (simp add: handles_only_while_hibernating_def decon_state_of_def)
next
  case (hibernating d)
  then show ?thesis
    by (simp add: handles_only_while_hibernating_def decon_state_of_def)
qed

lemma block_keeps_handles_invariant:
  "handles_only_while_hibernating (hibernation_block h) = handles_only_while_hibernating h"
  "handles_only_while_hibernating (hibernation_unblock h) = handles_only_while_hibernating h"
  by (simp_all add: handles_only_while_hibernating_def prim_defs)

lemma reachable_handles_invariant:
  "reachable h \<Longrightarrow> handles_only_while_hibernating h"
proof (induction rule: reachable.induct)
  case (registered d p a c h)
  then show ?case
    by (simp add: handles_only_while_hibernating_def register_handles)
next
  case (checked h b h')
  then show ?case
    by (auto simp add: check_unfold handles_only_while_hibernating_def decon_state_of_def
        split: if_splits)
next
  case (entered h h')
  then show ?case by (blast intro: enter_keeps_handles_invariant)
next
  case (exited h r h')
  then show ?case by (blast intro: exit_keeps_handles_invariant)
next
  case (block_exited h b h')
  from block_exited.hyps(2) show ?case
  proof (cases "funcs h")
    case None
    with block_exited show ?thesis
      by (auto simp add: hibernation_block_exit_def block_preserves
          block_keeps_handles_invariant)
  next
    case (Some f)
    then have f: "f = hibernation_funcs" by (cases f) simp
    from block_exited.hyps(2) Some f obtain r where
      "exynos_hibernation_exit (hibernation_block h) = Some (r, h')"
      by (auto simp add: hibernation_block_exit_def block_preserves split: option.splits)
    with block_exited.IH show ?thesis
      by (blast intro: exit_keeps_handles_invariant
          block_keeps_handles_invariant(1) [THEN iffD2])
  qed
next
  case (blocked h)
  then show ?case by (simp add: block_keeps_handles_invariant)
next
  case (unblocked h)
  then show ?case by (simp add: block_keeps_handles_invariant)
qed

text \<open>
  C8. In every controller that registration and the functions of the file produce, a
  captured writeback or link handle is present only while the pipeline is hibernating:
  when the pipeline is not \<open>DECON_STATE_HIBERNATION\<close>, both are \<^verbatim>\<open>NULL\<close>. Enter on
  an active pipeline stores what \<^verbatim>\<open>decon_get_wb\<close> and \<^verbatim>\<open>decon_get_dsim\<close> return
  and leaves the pipeline hibernating; exit on a hibernating pipeline clears both and
  leaves the pipeline on.
\<close>

theorem handles_present_only_while_hibernating:
  assumes "reachable h"
  shows "handles_only_while_hibernating h
     \<and> (decon_state_of h \<noteq> Some DECON_STATE_HIBERNATION \<longrightarrow> wb h = None \<and> dsim h = None)
     \<and> (\<forall>h'. decon_state_of h = Some DECON_STATE_ON \<and> exynos_hibernation_enter h = Some h'
           \<longrightarrow> wb h' = decon_get_wb h \<and> dsim h' = decon_get_dsim h
               \<and> decon_state_of h' = Some DECON_STATE_HIBERNATION)
     \<and> (\<forall>r h'. decon_state_of h = Some DECON_STATE_HIBERNATION
               \<and> exynos_hibernation_exit h = Some (r, h')
           \<longrightarrow> wb h' = None \<and> dsim h' = None \<and> decon_state_of h' = Some DECON_STATE_ON)"
proof (intro conjI allI impI)
  from assms show inv: "handles_only_while_hibernating h"
    by (rule reachable_handles_invariant)
  {
    assume "decon_state_of h \<noteq> Some DECON_STATE_HIBERNATION"
    with inv show "wb h = None" "dsim h = None"
      by (simp_all add: handles_only_while_hibernating_def)
  }
  {
    fix h'
    assume a: "decon_state_of h = Some DECON_STATE_ON \<and> exynos_hibernation_enter h = Some h'"
    then have e: "exynos_hibernation_enter h = Some h'" by simp
    from e a show "wb h' = decon_get_wb h"
      by (cases rule: enter_cases) (simp_all add: decon_state_of_def decon_get_wb_def)
    from e a show "dsim h' = decon_get_dsim h"
      by (cases rule: enter_cases) (simp_all add: decon_state_of_def decon_get_dsim_def)
    from e a show "decon_state_of h' = Some DECON_STATE_HIBERNATION"
      by (cases rule: enter_cases) (simp_all add: decon_state_of_def)
  }
  {
    fix r h'
    assume a: "decon_state_of h = Some DECON_STATE_HIBERNATION
               \<and> exynos_hibernation_exit h = Some (r, h')"
    then have e: "exynos_hibernation_exit h = Some (r, h')" by simp
    from e a show "wb h' = None"
      by (cases rule: exit_cases) (simp_all add: decon_state_of_def)
    from e a show "dsim h' = None"
      by (cases rule: exit_cases) (simp_all add: decon_state_of_def)
    from e a show "decon_state_of h' = Some DECON_STATE_ON"
      by (cases rule: exit_cases) (simp_all add: decon_state_of_def)
  }
qed

lemma hiber_active_registered:
  "exynos_hibernation_register
     \<lparr>state = DECON_STATE_ON, bts_fps = 60, attached_wb = Some 1, attached_dsim = Some 2,
      pm_usage = 1\<rparr> True True NO_CAMERA_NODE = Some hiber_active"
  by (simp add: exynos_hibernation_register_def exynos_hibernation_trig_reset_def
      hiber_active_def entry_cnt_default)

lemma hiber_active_enter:
  "exynos_hibernation_enter hiber_active =
     Some (hiber_asleep\<lparr>calls := enter_calls (Some 1) (Some 2)\<rparr>)"
  by (simp add: exynos_hibernation_enter_def prim_defs hiber_active_def hiber_asleep_def
      enter_calls_def)

text \<open>
  The theorem of C8 at the registered active sample (no handle) and at the controller that
  enter makes of it (both handles, hibernating; exit clears them).
\<close>

theorem handles_present_only_while_hibernating_witness:
  "reachable hiber_active \<and> wb hiber_active = None \<and> dsim hiber_active = None
   \<and> reachable (hiber_asleep\<lparr>calls := enter_calls (Some 1) (Some 2)\<rparr>)
   \<and> handles_only_while_hibernating (hiber_asleep\<lparr>calls := enter_calls (Some 1) (Some 2)\<rparr>)
   \<and> wb (hiber_asleep\<lparr>calls := enter_calls (Some 1) (Some 2)\<rparr>) = Some 1
   \<and> dsim (hiber_asleep\<lparr>calls := enter_calls (Some 1) (Some 2)\<rparr>) = Some 2
   \<and> (\<exists>r h'. exynos_hibernation_exit (hiber_asleep\<lparr>calls := enter_calls (Some 1) (Some 2)\<rparr>)
                 = Some (r, h') \<and> wb h' = None \<and> dsim h' = None)"
proof -
  have r1: "reachable hiber_active"
    by (rule reachable.registered [OF hiber_active_registered])
  have r2: "reachable (hiber_asleep\<lparr>calls := enter_calls (Some 1) (Some 2)\<rparr>)"
    by (rule reachable.entered [OF r1 hiber_active_enter])
  have x: "\<exists>r h'. exynos_hibernation_exit (hiber_asleep\<lparr>calls := enter_calls (Some 1) (Some 2)\<rparr>)
                 = Some (r, h')"
    by (simp add: exynos_hibernation_exit_def prim_defs hiber_asleep_def)
  from handles_present_only_while_hibernating [OF r1]
    handles_present_only_while_hibernating [OF r2] r1 r2 x
  show ?thesis
    by (auto simp add: hiber_active_def hiber_asleep_def decon_state_of_def)
qed

subsection \<open>Trigger counter\<close>

lemma sdiv_1000:
  "(x::int) sdiv 1000 = (if 0 \<le> x then x div 1000 else - ((- x) div 1000))"
  by (simp add: signed_divide_int_def sgn_if)

lemma div_round_up_range:
  assumes "- (2 ^ 31) \<le> (x::int)" and "x < 2 ^ 31"
  shows "- (2 ^ 31) \<le> DIV_ROUND_UP x MSEC_PER_SEC" "DIV_ROUND_UP x MSEC_PER_SEC < 2 ^ 31"
proof -
  have "- 2147483648 \<le> x" "x < 2147483648" using assms by simp_all
  then have "- 2147483648 \<le> (999 + x) sdiv 1000 \<and> (999 + x) sdiv 1000 < 2147483648"
    unfolding sdiv_1000 by (auto; linarith)
  then show "- (2 ^ 31) \<le> DIV_ROUND_UP x MSEC_PER_SEC" "DIV_ROUND_UP x MSEC_PER_SEC < 2 ^ 31"
    by (simp_all add: DIV_ROUND_UP_def MSEC_PER_SEC_def)
qed

lemma div_round_up_ceiling:
  "max 1 (DIV_ROUND_UP x MSEC_PER_SEC) = max 1 \<lceil>real_of_int x / 1000\<rceil>"
proof -
  have c: "\<lceil>real_of_int x / 1000\<rceil> = - ((- x) div 1000)"
    using ceiling_divide_eq_div [of x 1000] by simp
  have "max 1 ((999 + x) sdiv 1000) = max 1 (- ((- x) div 1000))"
    unfolding sdiv_1000 by (auto simp: max_def; linarith)
  then show ?thesis
    unfolding c by (simp add: DIV_ROUND_UP_def MSEC_PER_SEC_def)
qed

lemma sint_times_50:
  assumes "- (2 ^ 31) \<le> sint w * 50" and "sint w * 50 < 2 ^ 31"
  shows "sint (w * 50 :: 32 word) = sint w * 50"
proof -
  have "sint (w * 50) = signed_take_bit 31 (sint w * sint (50 :: 32 word))"
    by (simp add: sint_word_ariths)
  also have "sint (50 :: 32 word) = 50" by simp
  also have "signed_take_bit 31 (sint w * 50) = sint w * 50"
    using assms by (simp add: signed_take_bit_int_eq_self)
  finally show ?thesis .
qed

lemma sint_word_of_int_32:
  assumes "- (2 ^ 31) \<le> (q::int)" and "q < 2 ^ 31"
  shows "sint (word_of_int q :: 32 word) = q"
  using assms by (simp add: signed_of_int signed_take_bit_int_eq_self)

lemma entry_cnt_unfold:
  "trig_reset_entry_cnt w =
     (let q = DIV_ROUND_UP
                (sint ((if w \<noteq> 0 then w else HIBERNATION_ENTRY_DEFAULT_FPS) * 50)) MSEC_PER_SEC
      in if sint (word_of_int q :: 32 word) < 1 then 1 else word_of_int q)"
  by (simp add: trig_reset_entry_cnt_def Let_def HIBERNATION_ENTRY_MIN_TIME_MS_def
      HIBERNATION_ENTRY_MIN_ENTRY_CNT_def word_sless_alt)

lemma entry_cnt_sint:
  "sint (trig_reset_entry_cnt w) =
     max 1 (DIV_ROUND_UP
       (sint ((if w \<noteq> 0 then w else HIBERNATION_ENTRY_DEFAULT_FPS) * 50)) MSEC_PER_SEC)"
proof -
  define f where "f = (if w \<noteq> 0 then w else HIBERNATION_ENTRY_DEFAULT_FPS)"
  define q where "q = DIV_ROUND_UP (sint (f * 50)) MSEC_PER_SEC"
  have r: "- (2 ^ 31) \<le> sint (f * 50)" "sint (f * 50) < 2 ^ 31"
    using sint_ge [of "f * 50"] sint_lt [of "f * 50"] by simp_all
  have s: "sint (word_of_int q :: 32 word) = q"
    unfolding q_def by (rule sint_word_of_int_32) (rule div_round_up_range [OF r])+
  have "trig_reset_entry_cnt w = (if q < 1 then 1 else word_of_int q)"
    unfolding entry_cnt_unfold f_def [symmetric] q_def [symmetric] Let_def s ..
  then have "sint (trig_reset_entry_cnt w) = max 1 q"
    using s by simp
  then show ?thesis by (simp add: q_def f_def)
qed

lemma entry_cnt_positive: "1 \<le> sint (trig_reset_entry_cnt w)"
  by (simp add: entry_cnt_sint)

lemma entry_cnt_spec:
  assumes "- (2 ^ 31) \<le> sint w * 50" and "sint w * 50 < 2 ^ 31"
  shows "sint (trig_reset_entry_cnt w) = spec_entry_cnt (sint w)"
proof (cases "w = 0")
  case True
  then show ?thesis
    by (simp add: entry_cnt_default spec_entry_cnt_def)
next
  case False
  then have nz: "sint w \<noteq> 0" by (simp add: signed_eq_0_iff)
  from False have "sint (trig_reset_entry_cnt w) = max 1 (DIV_ROUND_UP (sint (w * 50)) MSEC_PER_SEC)"
    by (simp add: entry_cnt_sint)
  also have "\<dots> = max 1 (DIV_ROUND_UP (sint w * 50) MSEC_PER_SEC)"
    by (simp add: sint_times_50 [OF assms])
  also have "\<dots> = max 1 \<lceil>real_of_int (sint w * 50) / 1000\<rceil>"
    by (rule div_round_up_ceiling)
  finally show ?thesis using nz by (simp add: spec_entry_cnt_def)
qed

lemma word_of_nat_Suc_nonzero:
  assumes "Suc n < 2 ^ 32"
  shows "(word_of_nat (Suc n) :: 32 word) \<noteq> 0"
proof -
  have "\<not> 2 ^ LENGTH(32) dvd Suc n"
    using assms by (intro nat_dvd_not_less) simp_all
  then show ?thesis
    unfolding word_of_nat_eq_0_iff .
qed

lemma checks_countdown:
  assumes "block_cnt h = 0" and "\<not> is_camera_operating h"
    and "trig_cnt h = word_of_nat (Suc n)" and "Suc n < 2 ^ 32"
  shows "fst (checks (Suc n) h) = replicate n False @ [True]"
  using assms
proof (induction n arbitrary: h)
  case 0
  then show ?case by (simp add: check_unfold)
next
  case (Suc n)
  let ?h1 = "h\<lparr>trig_cnt := trig_cnt h - 1\<rparr>"
  have t: "trig_cnt h - 1 = word_of_nat (Suc n)" using Suc.prems(3) by simp
  have "Suc n < 2 ^ 32" using Suc.prems(4) by simp
  then have nz: "(word_of_nat (Suc n) :: 32 word) \<noteq> 0"
    by (rule word_of_nat_Suc_nonzero)
  have c: "exynos_hibernation_check h = (False, ?h1)"
    using Suc.prems(1,2) nz unfolding check_unfold t by simp
  have p: "block_cnt ?h1 = 0" "\<not> is_camera_operating ?h1" "trig_cnt ?h1 = word_of_nat (Suc n)"
    "Suc n < 2 ^ 32"
    using Suc.prems t by (simp_all add: is_camera_operating_def)
  from Suc.IH [OF p] have "fst (checks (Suc n) ?h1) = replicate n False @ [True]" .
  then show ?case
    unfolding checks.simps(2) [of "Suc n" h] c by (simp add: case_prod_unfold)
qed


lemma checks_after_reset:
  assumes "block_cnt h = 0" and "\<not> is_camera_operating h" and "1 \<le> sint (trig_cnt h)"
  shows "fst (checks (unat (trig_cnt h)) h) = replicate (unat (trig_cnt h) - 1) False @ [True]"
proof -
  from assms(3) have "trig_cnt h \<noteq> 0" by auto
  then have "0 < unat (trig_cnt h)" by (simp add: unat_gt_0)
  then obtain n where n: "unat (trig_cnt h) = Suc n" by (cases "unat (trig_cnt h)") simp_all
  have "unat (trig_cnt h) < 2 ^ LENGTH(32)" by (rule unsigned_less)
  then have lt: "Suc n < 2 ^ 32" unfolding n by simp
  have "word_of_nat (unat (trig_cnt h)) = trig_cnt h" by simp
  then have t: "trig_cnt h = word_of_nat (Suc n)" unfolding n by simp
  from checks_countdown [OF assms(1,2) t lt] show ?thesis unfolding n by simp
qed

text \<open>
  C6, as the code has it. With a pipeline present, the reset stores
  \<open>trig_reset_entry_cnt\<close> of the pipeline's rate, a count of at least 1. When the
  product of the rate (read as a signed 32-bit \<^verbatim>\<open>int\<close>) and 50 fits in 32 bits, that
  count is the spec's \<^verbatim>\<open>ceil(fps * 50 / 1000)\<close>, at least 1, with 60 for a rate of 0.
  After the reset, with no veto and the camera idle, the first count - 1 checks return
  false and the next one returns true.
\<close>

theorem trig_reset_count_and_ticks:
  assumes "decon h = Some d"
  shows "\<exists>h'. exynos_hibernation_trig_reset h = Some h'
     \<and> h' = h\<lparr>trig_cnt := trig_reset_entry_cnt (bts_fps d)\<rparr>
     \<and> 1 \<le> sint (trig_cnt h')
     \<and> (- (2 ^ 31) \<le> sint (bts_fps d) * 50 \<and> sint (bts_fps d) * 50 < 2 ^ 31
          \<longrightarrow> sint (trig_cnt h') = spec_entry_cnt (sint (bts_fps d)))
     \<and> (block_cnt h = 0 \<and> \<not> is_camera_operating h
          \<longrightarrow> fst (checks (unat (trig_cnt h')) h') =
                replicate (unat (trig_cnt h') - 1) False @ [True])"
proof -
  let ?h' = "h\<lparr>trig_cnt := trig_reset_entry_cnt (bts_fps d)\<rparr>"
  have r: "exynos_hibernation_trig_reset h = Some ?h'"
    using assms by (simp add: exynos_hibernation_trig_reset_def)
  have p: "1 \<le> sint (trig_cnt ?h')"
    by (simp add: entry_cnt_positive)
  have s: "sint (trig_cnt ?h') = spec_entry_cnt (sint (bts_fps d))"
    if "- (2 ^ 31) \<le> sint (bts_fps d) * 50 \<and> sint (bts_fps d) * 50 < 2 ^ 31"
    using that by (simp add: entry_cnt_spec)
  have c: "fst (checks (unat (trig_cnt ?h')) ?h') =
                replicate (unat (trig_cnt ?h') - 1) False @ [True]"
    if "block_cnt h = 0 \<and> \<not> is_camera_operating h"
  proof (rule checks_after_reset)
    from that show "block_cnt ?h' = 0" by simp
    from that show "\<not> is_camera_operating ?h'" by (simp add: is_camera_operating_def)
    from p show "1 \<le> sint (trig_cnt ?h')" .
  qed
  from r p s c show ?thesis by blast
qed

text \<open>
  The theorem of C6 at the active sample: at 60 Hz the reset stores 3, the spec's formula
  gives 3, and three checks return false, false, true.
\<close>

theorem trig_reset_count_and_ticks_witness:
  "exynos_hibernation_trig_reset (hiber_active\<lparr>trig_cnt := 0\<rparr>) = Some hiber_active
   \<and> sint (trig_cnt hiber_active) = spec_entry_cnt 60
   \<and> spec_entry_cnt 60 = 3
   \<and> fst (checks 3 hiber_active) = [False, False, True]"
proof -
  let ?d = "\<lparr>state = DECON_STATE_ON, bts_fps = 60, attached_wb = Some 1,
             attached_dsim = Some 2, pm_usage = 1\<rparr>"
  have a: "decon (hiber_active\<lparr>trig_cnt := 0\<rparr>) = Some ?d"
    by (simp add: hiber_active_def)
  have e: "(hiber_active\<lparr>trig_cnt := 0\<rparr>)\<lparr>trig_cnt := trig_reset_entry_cnt (bts_fps ?d)\<rparr>
      = hiber_active"
    by (simp add: hiber_active_def entry_cnt_default)
  have b: "block_cnt (hiber_active\<lparr>trig_cnt := 0\<rparr>) = 0
      \<and> \<not> is_camera_operating (hiber_active\<lparr>trig_cnt := 0\<rparr>)"
    by (simp add: hiber_active_def is_camera_operating_def)
  have f: "- (2 ^ 31) \<le> sint (bts_fps ?d) * 50 \<and> sint (bts_fps ?d) * 50 < 2 ^ 31"
    by simp
  have f60: "sint (bts_fps ?d) = 60" by simp
  have t: "trig_cnt hiber_active = 3" by (simp add: hiber_active_def)
  have n: "unat (3 :: 32 word) = 3" by simp
  have l: "replicate (3 - 1) False @ [True] = [False, False, True]"
    by (simp add: numeral_2_eq_2)
  have sp: "spec_entry_cnt 60 = 3" by (simp add: spec_entry_cnt_def)
  from trig_reset_count_and_ticks [OF a] b f
  have "exynos_hibernation_trig_reset (hiber_active\<lparr>trig_cnt := 0\<rparr>) = Some hiber_active
      \<and> sint (trig_cnt hiber_active) = spec_entry_cnt (sint (bts_fps ?d))
      \<and> fst (checks (unat (trig_cnt hiber_active)) hiber_active) =
          replicate (unat (trig_cnt hiber_active) - 1) False @ [True]"
    unfolding e by blast
  then have "exynos_hibernation_trig_reset (hiber_active\<lparr>trig_cnt := 0\<rparr>) = Some hiber_active
      \<and> sint (trig_cnt hiber_active) = spec_entry_cnt 60
      \<and> fst (checks (unat (3 :: 32 word)) hiber_active) =
          replicate (unat (3 :: 32 word) - 1) False @ [True]"
    unfolding f60 unfolding t by simp
  then show ?thesis unfolding n l using sp by simp
qed

text \<open>
  C6 as stated fails for a rate whose product with 50 leaves the 32-bit range: at a rate
  of 42949673 the product wraps to a negative number and the reset stores 1, where the
  spec's formula gives 2147484.
\<close>

theorem trig_reset_product_wraps:
  "map_option trig_cnt
     (exynos_hibernation_trig_reset
        (hiber_active\<lparr>decon := Some \<lparr>state = DECON_STATE_ON, bts_fps = 42949673,
                                      attached_wb = Some 1, attached_dsim = Some 2,
                                      pm_usage = 1\<rparr>\<rparr>)) = Some 1
   \<and> sint (42949673 :: 32 word) = 42949673
   \<and> spec_entry_cnt 42949673 = 2147484"
  by (simp add: exynos_hibernation_trig_reset_def hiber_active_def trig_reset_entry_cnt_def
      DIV_ROUND_UP_def word_sless_alt signed_divide_int_def spec_entry_cnt_def
      HIBERNATION_ENTRY_MIN_TIME_MS_def MSEC_PER_SEC_def HIBERNATION_ENTRY_MIN_ENTRY_CNT_def
      HIBERNATION_ENTRY_DEFAULT_FPS_def)

end
